theory Spec2Isabelle
  imports Complex_Main "HOL-Library.Multiset"
begin

section \<open>Numbers and errors\<close>

text \<open>
  The program computes in double precision.  This development reads every finite
  double as the real number it stands for and every arithmetic operation as the exact
  operation on reals: rounding and overflow are not modelled.  Where the Python code
  leaves the finite numbers (numpy returns \<open>nan\<close> or \<open>inf\<close> with a warning and no
  exception) the model answers \<open>NonFinite\<close> and says nothing about the values.
\<close>

datatype error =
    ValueError string
  | TypeError
  | ZeroDivisionError
  | IndexError
  | KeyError
  | MySQLError string

datatype 'a result = is_Ok: Ok 'a | is_Raise: Raise error | NonFinite

definition bind :: "'a result \<Rightarrow> ('a \<Rightarrow> 'b result) \<Rightarrow> 'b result" where
  "bind m f = (case m of Ok x \<Rightarrow> f x | Raise e \<Rightarrow> Raise e | NonFinite \<Rightarrow> NonFinite)"

section \<open>The standard normal distribution (scipy.stats.norm)\<close>

text \<open>
  \<open>norm.pdf\<close> is the density \<open>exp (- x\<^sup>2 / 2) / sqrt (2 pi)\<close>.  \<open>norm.cdf\<close> is the
  distribution function, written here by its Maclaurin series
  \<open>1/2 + (\<Sum>k. (-1)^k x^(2k+1) / (2^k k! (2k+1))) / sqrt (2 pi)\<close>,
  the termwise integral of the density from \<open>0\<close> to \<open>x\<close>; \<open>DERIV_norm_cdf\<close> and
  \<open>norm_cdf_zero\<close> below check it against the density.
\<close>

definition norm_pdf :: "real \<Rightarrow> real" where
  "norm_pdf x = exp (- x\<^sup>2 / 2) / sqrt (2 * pi)"

definition cdf_term :: "real \<Rightarrow> nat \<Rightarrow> real" where
  "cdf_term x k = (- 1) ^ k * (x ^ (2 * k + 1) / (2 ^ k * fact k * real (2 * k + 1)))"

definition norm_cdf :: "real \<Rightarrow> real" where
  "norm_cdf x = 1 / 2 + (\<Sum>k. cdf_term x k) / sqrt (2 * pi)"

section \<open>utils/black\_scholes.py\<close>

record BlackScholes =
  time_to_maturity :: real
  strike :: real
  current_price :: real
  volatility :: real
  interest_rate :: real

record bs_results =
  call_price :: real
  put_price :: real
  call_delta :: real
  put_delta :: real
  call_gamma :: real
  put_gamma :: real

text \<open>
  \<open>BlackScholes.run\<close>.  \<open>S / K\<close> divides two Python floats and raises
  \<open>ZeroDivisionError\<close> when \<open>K = 0\<close>.  Every later operation is a numpy operation, which
  never raises: \<open>log\<close> of a non-positive number, \<open>sqrt\<close> of a negative number and the
  division by \<open>sigma * sqrt T = 0\<close> give \<open>nan\<close> or \<open>inf\<close>.  The method itself checks nothing.
\<close>

definition run :: "BlackScholes \<Rightarrow> bs_results result" where
  "run self =
    (let T = time_to_maturity self;
         K = strike self;
         S = current_price self;
         sigma = volatility self;
         r = interest_rate self
     in if K = 0 then Raise ZeroDivisionError
        else if S / K \<le> 0 \<or> T < 0 \<or> sigma * sqrt T = 0 then NonFinite
        else
          let d1 = (ln (S / K) + (r + 0.5 * sigma\<^sup>2) * T) / (sigma * sqrt T);
              d2 = d1 - sigma * sqrt T;
              call_price = S * norm_cdf d1 - K * exp (- r * T) * norm_cdf d2;
              put_price = K * exp (- r * T) * norm_cdf (- d2) - S * norm_cdf (- d1);
              call_delta = norm_cdf d1;
              put_delta = call_delta - 1;
              gamma = norm_pdf d1 / (S * sigma * sqrt T)
          in Ok \<lparr>call_price = call_price, put_price = put_price,
                 call_delta = call_delta, put_delta = put_delta,
                 call_gamma = gamma, put_gamma = gamma\<rparr>)"

text \<open>The input invariants of the specification.\<close>

definition valid_inputs :: "BlackScholes \<Rightarrow> bool" where
  "valid_inputs self \<longleftrightarrow>
     0 < current_price self \<and> 0 < strike self \<and>
     0 < time_to_maturity self \<and> 0 < volatility self"


section \<open>utils/db.py and core/db\_setup.py\<close>

text \<open>
  The two tables of \<open>create_table_if_not_exists\<close>, without the timestamp column (the
  server's clock).  \<open>transport_error = Some m\<close> stands for a connector that raises
  \<open>mysql.connector.Error\<close> with message \<open>m\<close> on the next statement; \<open>DBHandler.execute\<close>
  prints it and re-raises it.  The identifiers are the \<open>AUTO_INCREMENT\<close> counters.
\<close>

type_synonym input_row = "nat \<times> real \<times> real \<times> real \<times> real \<times> real"
type_synonym sample = "real \<times> real \<times> real \<times> real"
type_synonym heatmap_row = "nat \<times> nat \<times> sample"

record db_handler =
  transport_error :: "string option"
  option_pricing :: "input_row list"
  heatmap_data :: "heatmap_row list"
  next_calc_id :: nat
  next_heatmap_id :: nat

text \<open>\<open>db.execute(insert_query, params)\<close> on \<open>option_pricing\<close>: commits and returns \<open>lastrowid\<close>.\<close>

definition execute_insert_input ::
  "db_handler \<Rightarrow> real \<times> real \<times> real \<times> real \<times> real \<Rightarrow> (nat \<times> db_handler) result" where
  "execute_insert_input d params =
     (case transport_error d of
        Some m \<Rightarrow> Raise (MySQLError m)
      | None \<Rightarrow>
          Ok (next_calc_id d,
              d\<lparr>option_pricing := option_pricing d @ [(next_calc_id d, params)],
                next_calc_id := Suc (next_calc_id d)\<rparr>))"

text \<open>
  \<open>db.execute(insert_query, params, many=True)\<close> on \<open>heatmap_data\<close>: one multi-row
  statement, committed as a whole.  A row whose \<open>calc_id\<close> is not in \<open>option_pricing\<close>
  violates the foreign key and the statement fails.
\<close>

fun number_rows :: "nat \<Rightarrow> nat \<Rightarrow> sample list \<Rightarrow> heatmap_row list" where
  "number_rows h c [] = []"
| "number_rows h c (x # xs) = (h, c, x) # number_rows (Suc h) c xs"

definition execute_insert_heatmaps ::
  "db_handler \<Rightarrow> nat \<Rightarrow> sample list \<Rightarrow> db_handler result" where
  "execute_insert_heatmaps d c params =
     (case transport_error d of
        Some m \<Rightarrow> Raise (MySQLError m)
      | None \<Rightarrow>
          if params \<noteq> [] \<and> c \<notin> fst ` set (option_pricing d)
          then Raise (MySQLError ''foreign key constraint fails'')
          else Ok (d\<lparr>heatmap_data := heatmap_data d @ number_rows (next_heatmap_id d) c params,
                     next_heatmap_id := next_heatmap_id d + length params\<rparr>))"

text \<open>The query of \<open>_on_history_load\<close>: the samples of one calculation by \<open>heatmap_id\<close>.\<close>

definition execute_select_heatmap :: "db_handler \<Rightarrow> nat \<Rightarrow> sample list result" where
  "execute_select_heatmap d c =
     (case transport_error d of
        Some m \<Rightarrow> Raise (MySQLError m)
      | None \<Rightarrow> Ok (map (\<lambda>(h, c', x). x)
                     (sort_key fst (filter (\<lambda>(h, c', x). c' = c) (heatmap_data d)))))"

section \<open>The user interface as data\<close>

text \<open>
  A message box is recorded by its title; an error box also by the exception whose text
  it shows.  The labels hold the numbers last shown (\<open>None\<close> is the dash), or
  \<open>NotFinite\<close> when they were formatted from values outside the finite reals.  The
  figure holds the matrices last drawn, a cell \<open>None\<close> being \<open>nan\<close>.  Log lines are left
  out.
\<close>

datatype dialog = ShowInfo string | ShowWarning string | ShowError string error

record label_values =
  call_val :: "real option"
  put_val :: "real option"
  delta_call :: "real option"
  delta_put :: "real option"
  gamma_val :: "real option"

datatype labels = Blank | Values label_values | NotFinite

record heatmap =
  spot_axis :: "real list"
  vol_axis :: "real list"
  call_grid :: "real option list list"
  put_grid :: "real option list list"

record world =
  db :: db_handler
  dialogs :: "dialog list"
  shown :: labels
  figure :: "heatmap option"

definition messagebox :: "dialog \<Rightarrow> world \<Rightarrow> world" where
  "messagebox d w = w\<lparr>dialogs := dialogs w @ [d]\<rparr>"

text \<open>
  \<open>insert_input_record\<close> and \<open>insert_heatmap_records\<close>: \<open>except Error\<close> catches the
  connector's exception, shows it, and the function returns \<open>None\<close>.
\<close>

definition insert_input_record ::
  "world \<Rightarrow> real \<times> real \<times> real \<times> real \<times> real \<Rightarrow> world \<times> nat option result" where
  "insert_input_record w params =
     (case execute_insert_input (db w) params of
        Ok (calc_id, d) \<Rightarrow> (w\<lparr>db := d\<rparr>, Ok (Some calc_id))
      | Raise (MySQLError m) \<Rightarrow>
          (messagebox (ShowError ''Database Error'' (MySQLError m)) w, Ok None)
      | Raise e \<Rightarrow> (w, Raise e)
      | NonFinite \<Rightarrow> (w, NonFinite))"

definition insert_heatmap_records ::
  "world \<Rightarrow> nat \<Rightarrow> sample list \<Rightarrow> world \<times> unit result" where
  "insert_heatmap_records w calc_id heatmap_records =
     (case execute_insert_heatmaps (db w) calc_id heatmap_records of
        Ok d \<Rightarrow> (w\<lparr>db := d\<rparr>, Ok ())
      | Raise (MySQLError m) \<Rightarrow>
          (messagebox (ShowError ''Database Error'' (MySQLError m)) w, Ok ())
      | Raise e \<Rightarrow> (w, Raise e)
      | NonFinite \<Rightarrow> (w, NonFinite))"

section \<open>core/calculations.py\<close>

text \<open>
  A text field is \<open>None\<close> when it is empty and \<open>Some x\<close> when its text is the number \<open>x\<close>;
  text that is not a number is outside the typed inputs considered here.
\<close>

definition read_float :: "real option \<Rightarrow> string \<Rightarrow> bool \<Rightarrow> real option \<Rightarrow> real option result" where
  "read_float var name required dflt =
     (case var of
        None \<Rightarrow> if required then Raise (ValueError (CHR 0x27 # name @ CHR 0x27 # '' is required.''))
                else Ok dflt
      | Some x \<Rightarrow> Ok (Some x))"

text \<open>A Python comparison or product with \<open>None\<close> raises \<open>TypeError\<close>.\<close>

definition as_float :: "real option \<Rightarrow> real result" where
  "as_float v = (case v of None \<Rightarrow> Raise TypeError | Some x \<Rightarrow> Ok x)"

definition read_required :: "real option \<Rightarrow> string \<Rightarrow> real result" where
  "read_required var name = bind (read_float var name True None) as_float"

record pricing_vars =
  current_price_var :: "real option"
  strike_var :: "real option"
  ttm_var :: "real option"
  vol_var :: "real option"
  rate_var :: "real option"






section \<open>core/plotting.py\<close>

record range_vars =
  spot_min_var :: "real option"
  spot_max_var :: "real option"
  vol_min_var :: "real option"
  vol_max_var :: "real option"

definition read_optional :: "real option \<Rightarrow> string \<Rightarrow> real \<Rightarrow> real result" where
  "read_optional var name dflt = bind (read_float var name False (Some dflt)) as_float"

text \<open>
  \<open>np.linspace(start, stop, num)\<close>: \<open>arange(num) * step + start\<close> with
  \<open>step = (stop - start) / (num - 1)\<close>, the last element then set to \<open>stop\<close>.
\<close>

definition linspace :: "real \<Rightarrow> real \<Rightarrow> nat \<Rightarrow> real list" where
  "linspace start stop num =
     (if num \<le> 1 then map (\<lambda>i. start) [0..<num]
      else (map (\<lambda>i. real i * ((stop - start) / real (num - 1)) + start) [0..<num])
             [num - 1 := stop])"

text \<open>\<open>a[i, j] = v\<close> on a matrix held as a list of rows.\<close>

definition set_cell :: "'a list list \<Rightarrow> nat \<Rightarrow> nat \<Rightarrow> 'a \<Rightarrow> 'a list list result" where
  "set_cell a i j v =
     (if i < length a \<and> j < length (a ! i) then Ok (a[i := (a ! i)[j := v]])
      else Raise IndexError)"

text \<open>
  Lines 64 to 89 of \<open>plot_heatmaps\<close>: the resolution, the base inputs, the ranges
  with their defaults, and the validations, in the order of the source.  The result is
  \<open>(spot_min, spot_max, vol_min, vol_max, strike, ttm, rate)\<close>.
\<close>

definition heatmap_inputs ::
  "int \<Rightarrow> pricing_vars \<Rightarrow> range_vars \<Rightarrow>
     (real \<times> real \<times> real \<times> real \<times> real \<times> real \<times> real) result" where
  "heatmap_inputs n vars ranges =
     (if n < 2 then Raise (ValueError ''Resolution must be at least 2'')
      else
     bind (read_required (current_price_var vars) ''Current Asset Price'') (\<lambda>base_spot.
     bind (read_required (vol_var vars) ''Volatility'') (\<lambda>base_vol.
     bind (read_required (strike_var vars) ''Strike Price'') (\<lambda>K.
     bind (read_required (ttm_var vars) ''Time to Maturity'') (\<lambda>ttm.
     bind (read_required (rate_var vars) ''Risk-Free Rate'') (\<lambda>rate.
     bind (read_optional (spot_min_var ranges) ''Min Spot'' (base_spot * 0.8)) (\<lambda>spot_min.
     bind (read_optional (spot_max_var ranges) ''Max Spot'' (base_spot * 1.2)) (\<lambda>spot_max.
     bind (read_optional (vol_min_var ranges) ''Min Volatility'' (max 0.01 (base_vol * 0.5))) (\<lambda>vol_min.
     bind (read_optional (vol_max_var ranges) ''Max Volatility'' (min 5.0 (base_vol * 1.5))) (\<lambda>vol_max.
       if spot_min \<le> 0 \<or> spot_max \<le> 0 then Raise (ValueError ''Spot ranges must be > 0'')
       else if spot_max \<le> spot_min then Raise (ValueError ''Max Spot must be greater than Min Spot'')
       else if vol_min \<le> 0 \<or> vol_max \<le> 0 then Raise (ValueError ''Vol ranges must be > 0'')
       else if vol_max \<le> vol_min then Raise (ValueError ''Max Vol must be greater than Min Vol'')
       else Ok (spot_min, spot_max, vol_min, vol_max, K, ttm, rate)))))))))))"

record sweep_state =
  call_prices :: "real list list"
  put_prices :: "real list list"
  save_records :: "sample list"

text \<open>The inner loop \<open>for j, spot in enumerate(spot_range)\<close> of row \<open>i\<close>.\<close>

fun spot_loop ::
  "real \<Rightarrow> real \<Rightarrow> real \<Rightarrow> nat \<Rightarrow> real \<Rightarrow> nat \<Rightarrow> real list \<Rightarrow> sweep_state \<Rightarrow> sweep_state result" where
  "spot_loop ttm K rate i vol j [] st = Ok st"
| "spot_loop ttm K rate i vol j (spot # spots) st =
     (case run \<lparr>time_to_maturity = ttm, strike = K, current_price = spot,
                volatility = vol, interest_rate = rate\<rparr> of
        Raise e \<Rightarrow> Raise e
      | NonFinite \<Rightarrow> NonFinite
      | Ok bs_temp \<Rightarrow>
          (case set_cell (call_prices st) i j (call_price bs_temp) of
             Raise e \<Rightarrow> Raise e
           | NonFinite \<Rightarrow> NonFinite
           | Ok cp \<Rightarrow>
               (case set_cell (put_prices st) i j (put_price bs_temp) of
                  Raise e \<Rightarrow> Raise e
                | NonFinite \<Rightarrow> NonFinite
                | Ok pp \<Rightarrow>
                    spot_loop ttm K rate i vol (Suc j) spots
                      \<lparr>call_prices = cp, put_prices = pp,
                       save_records = save_records st @ [(spot, vol, cp ! i ! j, pp ! i ! j)]\<rparr>)))"

text \<open>The outer loop \<open>for i, vol in enumerate(vol_range)\<close>.\<close>

fun vol_loop ::
  "real \<Rightarrow> real \<Rightarrow> real \<Rightarrow> real list \<Rightarrow> nat \<Rightarrow> real list \<Rightarrow> sweep_state \<Rightarrow> sweep_state result" where
  "vol_loop ttm K rate spot_range i [] st = Ok st"
| "vol_loop ttm K rate spot_range i (vol # vols) st =
     (case spot_loop ttm K rate i vol 0 spot_range st of
        Raise e \<Rightarrow> Raise e
      | NonFinite \<Rightarrow> NonFinite
      | Ok st' \<Rightarrow> vol_loop ttm K rate spot_range (Suc i) vols st')"

text \<open>
  Lines 64 to 121: the axes, the two \<open>n \<times> n\<close> matrices of zeros, and the sweep.  Nothing
  is written or drawn before this has returned.
\<close>

definition heatmap_surface ::
  "int \<Rightarrow> pricing_vars \<Rightarrow> range_vars \<Rightarrow> (real list \<times> real list \<times> sweep_state) result" where
  "heatmap_surface n vars ranges =
     bind (heatmap_inputs n vars ranges) (\<lambda>(spot_min, spot_max, vol_min, vol_max, K, ttm, rate).
       let spot_range = linspace spot_min spot_max (nat n);
           vol_range = linspace vol_min vol_max (nat n)
       in bind (vol_loop ttm K rate spot_range 0 vol_range
                  \<lparr>call_prices = replicate (nat n) (replicate (nat n) 0),
                   put_prices = replicate (nat n) (replicate (nat n) 0),
                   save_records = []\<rparr>)
            (\<lambda>st. Ok (spot_range, vol_range, st)))"

definition drawn :: "real list \<Rightarrow> real list \<Rightarrow> sweep_state \<Rightarrow> heatmap" where
  "drawn spot_range vol_range st =
     \<lparr>spot_axis = spot_range, vol_axis = vol_range,
      call_grid = map (map Some) (call_prices st),
      put_grid = map (map Some) (put_prices st)\<rparr>"

text \<open>
  \<open>plot_heatmaps\<close>.  Without a calculation identifier it only warns.  \<open>except Exception\<close>
  turns every exception of the body into an error box.
\<close>

definition plot_heatmaps ::
  "world \<Rightarrow> nat option \<Rightarrow> int \<Rightarrow> pricing_vars \<Rightarrow> range_vars \<Rightarrow> world result" where
  "plot_heatmaps w calc_id n vars ranges =
     (case calc_id of
        None \<Rightarrow> Ok (messagebox (ShowWarning ''No Calculation ID'') w)
      | Some c \<Rightarrow>
          (case heatmap_surface n vars ranges of
             Raise e \<Rightarrow> Ok (messagebox (ShowError ''Heatmap error'' e) w)
           | NonFinite \<Rightarrow> NonFinite
           | Ok (spot_range, vol_range, st) \<Rightarrow>
               (case insert_heatmap_records w c (save_records st) of
                  (w1, Raise e) \<Rightarrow> Ok (messagebox (ShowError ''Heatmap error'' e) w1)
                | (w1, NonFinite) \<Rightarrow> NonFinite
                | (w1, Ok u) \<Rightarrow>
                    Ok (messagebox (ShowInfo ''Heatmaps Generated'')
                          (w1\<lparr>figure := Some (drawn spot_range vol_range st)\<rparr>)))))"

section \<open>core/history.py\<close>

text \<open>\<open>{s: j for j, s in enumerate(spots)}\<close>: a later entry replaces an earlier one.\<close>

definition index_dict :: "real list \<Rightarrow> (real \<rightharpoonup> nat)" where
  "index_dict xs = fold (\<lambda>(j, s) m. m(s \<mapsto> j)) (enumerate 0 xs) Map.empty"

text \<open>The loop \<open>for r in rows\<close> that fills the two matrices.\<close>

fun fill_loop ::
  "(real \<rightharpoonup> nat) \<Rightarrow> (real \<rightharpoonup> nat) \<Rightarrow> sample list \<Rightarrow>
     real option list list \<times> real option list list \<Rightarrow>
     (real option list list \<times> real option list list) result" where
  "fill_loop vol_to_idx spot_to_idx [] g = Ok g"
| "fill_loop vol_to_idx spot_to_idx ((s, v, c, p) # rows) (cp, pp) =
     (case vol_to_idx v of
        None \<Rightarrow> Raise KeyError
      | Some i \<Rightarrow>
          (case spot_to_idx s of
             None \<Rightarrow> Raise KeyError
           | Some j \<Rightarrow>
               (case set_cell cp i j (Some c) of
                  Raise e \<Rightarrow> Raise e
                | NonFinite \<Rightarrow> NonFinite
                | Ok cp' \<Rightarrow>
                    (case set_cell pp i j (Some p) of
                       Raise e \<Rightarrow> Raise e
                     | NonFinite \<Rightarrow> NonFinite
                     | Ok pp' \<Rightarrow> fill_loop vol_to_idx spot_to_idx rows (cp', pp')))))"

text \<open>
  Lines 54 to 70 of \<open>_on_history_load\<close>: the sorted distinct spots and volatilities, two
  matrices of \<open>nan\<close>, and the fill.
\<close>

definition history_grids :: "sample list \<Rightarrow> heatmap result" where
  "history_grids rows =
     (let spots = sort (remdups (map (\<lambda>(s, v, c, p). s) rows));
          vols = sort (remdups (map (\<lambda>(s, v, c, p). v) rows));
          n_spot = length spots;
          n_vol = length vols
      in bind (fill_loop (index_dict vols) (index_dict spots) rows
                 (replicate n_vol (replicate n_spot None),
                  replicate n_vol (replicate n_spot None)))
           (\<lambda>(cp, pp). Ok \<lparr>spot_axis = spots, vol_axis = vols,
                              call_grid = cp, put_grid = pp\<rparr>))"

text \<open>
  The body of the \<open>try\<close> of \<open>_on_history_load\<close>; \<open>sel\<close> is the identifier of the selected
  row of the tree, if one is selected.
\<close>

definition history_load_try :: "world \<Rightarrow> nat option \<Rightarrow> world result" where
  "history_load_try w sel =
     (case sel of
        None \<Rightarrow> Ok (messagebox (ShowInfo ''Select'') w)
      | Some calc_id \<Rightarrow>
          bind (execute_select_heatmap (db w) calc_id) (\<lambda>rows.
            if rows = [] then Ok (messagebox (ShowInfo ''No data'') w)
            else bind (history_grids rows) (\<lambda>h.
              Ok (messagebox (ShowInfo ''Heatmap Loaded'') (w\<lparr>figure := Some h\<rparr>)))))"

definition on_history_load :: "world \<Rightarrow> nat option \<Rightarrow> world result" where
  "on_history_load w sel =
     (case history_load_try w sel of
        Raise e \<Rightarrow> Ok (messagebox (ShowError ''Load error'' e) w)
      | r \<Rightarrow> r)"

section \<open>The formulas of the specification\<close>

text \<open>
  The Black-Scholes-Merton equations as the specification writes them, with \<open>N\<close> the
  standard normal distribution function and \<open>n\<close> its density.
\<close>

definition spec_d1 :: "real \<Rightarrow> real \<Rightarrow> real \<Rightarrow> real \<Rightarrow> real \<Rightarrow> real" where
  "spec_d1 spot K T sigma rate =
     (ln (spot / K) + (rate + 0.5 * sigma ^ 2) * T) / (sigma * sqrt T)"

definition spec_d2 :: "real \<Rightarrow> real \<Rightarrow> real \<Rightarrow> real \<Rightarrow> real \<Rightarrow> real" where
  "spec_d2 spot K T sigma rate = spec_d1 spot K T sigma rate - sigma * sqrt T"

definition spec_price :: "real \<Rightarrow> real \<Rightarrow> real \<Rightarrow> real \<Rightarrow> real \<Rightarrow> bs_results" where
  "spec_price spot K T sigma rate =
     \<lparr>call_price = spot * norm_cdf (spec_d1 spot K T sigma rate)
                     - K * exp (- rate * T) * norm_cdf (spec_d2 spot K T sigma rate),
      put_price = K * exp (- rate * T) * norm_cdf (- spec_d2 spot K T sigma rate)
                    - spot * norm_cdf (- spec_d1 spot K T sigma rate),
      call_delta = norm_cdf (spec_d1 spot K T sigma rate),
      put_delta = norm_cdf (spec_d1 spot K T sigma rate) - 1,
      call_gamma = norm_pdf (spec_d1 spot K T sigma rate) / (spot * sigma * sqrt T),
      put_gamma = norm_pdf (spec_d1 spot K T sigma rate) / (spot * sigma * sqrt T)\<rparr>"

section \<open>Concrete inputs\<close>

text \<open>A fresh application: empty tables, a working connection, nothing shown.\<close>

definition empty_world :: world where
  "empty_world =
     \<lparr>db = \<lparr>transport_error = None, option_pricing = [], heatmap_data = [],
             next_calc_id = 1, next_heatmap_id = 1\<rparr>,
      dialogs = [], shown = Blank, figure = None\<rparr>"

text \<open>The same application behind a connection that fails.\<close>

definition offline_world :: world where
  "offline_world =
     empty_world\<lparr>db := (db empty_world)\<lparr>transport_error := Some ''connection lost''\<rparr>\<rparr>"

text \<open>The at-the-money one-year option of the specification's scenario.\<close>

definition atm_option :: BlackScholes where
  "atm_option =
     \<lparr>time_to_maturity = 1, strike = 100, current_price = 100,
      volatility = 0.2, interest_rate = 0.05\<rparr>"

definition fields_of :: "BlackScholes \<Rightarrow> pricing_vars" where
  "fields_of self =
     \<lparr>current_price_var = Some (current_price self), strike_var = Some (strike self),
      ttm_var = Some (time_to_maturity self), vol_var = Some (volatility self),
      rate_var = Some (interest_rate self)\<rparr>"

definition no_ranges :: range_vars where
  "no_ranges = \<lparr>spot_min_var = None, spot_max_var = None, vol_min_var = None, vol_max_var = None\<rparr>"

text \<open>
  The spot range a request would use, read as \<open>plot_heatmaps\<close> reads it, is positive
  and increasing.
\<close>

definition spot_range_ok :: "BlackScholes \<Rightarrow> range_vars \<Rightarrow> bool" where
  "spot_range_ok self ranges \<longleftrightarrow>
     (let a = (case spot_min_var ranges of None \<Rightarrow> current_price self * 0.8 | Some x \<Rightarrow> x);
          b = (case spot_max_var ranges of None \<Rightarrow> current_price self * 1.2 | Some x \<Rightarrow> x)
      in 0 < a \<and> a < b)"

section \<open>Closed forms of the sweep\<close>

text \<open>
  What the loops of \<open>plot_heatmaps\<close> compute on valid inputs: the sample of one cell, the
  matrix of one result field with rows by volatility and columns by spot, and the
  records in the order of the sweep.
\<close>

definition cell_sample :: "real \<Rightarrow> real \<Rightarrow> real \<Rightarrow> real \<Rightarrow> real \<Rightarrow> sample" where
  "cell_sample K T rate vol spot =
     (spot, vol, call_price (spec_price spot K T vol rate), put_price (spec_price spot K T vol rate))"

definition price_grid ::
  "(bs_results \<Rightarrow> real) \<Rightarrow> real \<Rightarrow> real \<Rightarrow> real \<Rightarrow> real list \<Rightarrow> real list \<Rightarrow> real list list" where
  "price_grid field K T rate spots vols =
     map (\<lambda>vol. map (\<lambda>spot. field (spec_price spot K T vol rate)) spots) vols"

definition samples_of :: "real \<Rightarrow> real \<Rightarrow> real \<Rightarrow> real list \<Rightarrow> real list \<Rightarrow> sample list" where
  "samples_of K T rate spots vols = concat (map (\<lambda>vol. map (cell_sample K T rate vol) spots) vols)"


text \<open>The coefficient of \<open>x^(2k+1)\<close> in the series of the distribution function.\<close>

definition cdf_coeff :: "nat \<Rightarrow> real" where
  "cdf_coeff k = (- 1) ^ k / (2 ^ k * fact k * real (2 * k + 1))"

section \<open>Terms of the alternating series\<close>

text \<open>
  The absolute values of the terms of the series of \<open>arctan x\<close>, of \<open>exp (- y)\<close> and of
  the distribution function, used to enclose their sums between partial sums.
\<close>

definition arctan_abs :: "real \<Rightarrow> nat \<Rightarrow> real" where
  "arctan_abs x k = 1 / real (k * 2 + 1) * x ^ (k * 2 + 1)"

definition exp_abs :: "real \<Rightarrow> nat \<Rightarrow> real" where
  "exp_abs y k = y ^ k / fact k"

definition cdf_abs :: "real \<Rightarrow> nat \<Rightarrow> real" where
  "cdf_abs x k = x ^ (2 * k + 1) / (2 ^ k * fact k * real (2 * k + 1))"

section \<open>Properties of the distribution function\<close>

lemma cdf_term_abs_le:
  "\<bar>cdf_term x k\<bar> \<le> \<bar>x\<bar> * ((x\<^sup>2) ^ k / fact k)"
proof -
  have "\<bar>cdf_term x k\<bar> = \<bar>x\<bar> * (x\<^sup>2) ^ k / (2 ^ k * fact k * real (2 * k + 1))"
  proof -
    have "\<bar>x\<bar> ^ (2 * k) = (x\<^sup>2) ^ k"
      by (simp add: power_mult flip: power_abs)
    then show ?thesis
      by (simp add: cdf_term_def abs_mult power_abs)
  qed
  also have "\<dots> \<le> \<bar>x\<bar> * (x\<^sup>2) ^ k / fact k"
  proof (rule divide_left_mono)
    have "(1::real) \<le> 2 ^ k" by simp
    moreover have "(1::real) \<le> real (2 * k + 1)" by simp
    ultimately have "(1::real) * 1 \<le> 2 ^ k * real (2 * k + 1)"
      by (rule mult_mono) simp_all
    then have "fact k * (1::real) \<le> fact k * (2 ^ k * real (2 * k + 1))"
      by (intro mult_left_mono) simp_all
    then show "(fact k :: real) \<le> 2 ^ k * fact k * real (2 * k + 1)"
      by (simp add: mult_ac)
  qed (simp_all add: zero_le_mult_iff)
  finally show ?thesis by simp
qed

lemma summable_cdf_term: "summable (cdf_term x)"
proof (rule summable_comparison_test_ev)
  show "summable (\<lambda>k. \<bar>x\<bar> * ((x\<^sup>2) ^ k / fact k))"
    using summable_mult [OF summable_exp [of "x\<^sup>2"], of "\<bar>x\<bar>"]
    by (simp add: divide_inverse mult.commute)
  show "\<forall>\<^sub>F k in sequentially. norm (cdf_term x k) \<le> \<bar>x\<bar> * ((x\<^sup>2) ^ k / fact k)"
    using cdf_term_abs_le by (simp add: eventually_sequentially)
qed

lemma cdf_term_minus: "cdf_term (- x) k = - cdf_term x k"
  by (simp add: cdf_term_def)

lemma norm_cdf_minus: "norm_cdf (- x) = 1 - norm_cdf x"
proof -
  have "(\<Sum>k. cdf_term (- x) k) = - (\<Sum>k. cdf_term x k)"
    by (simp add: cdf_term_minus suminf_minus summable_cdf_term)
  then show ?thesis
    by (simp add: norm_cdf_def field_simps)
qed

text \<open>
  The series is the distribution function: its value at \<open>0\<close> is \<open>1/2\<close> and its
  derivative is the density everywhere.
\<close>

lemma cdf_coeff_abs_le: "\<bar>cdf_coeff k * y ^ k\<bar> \<le> inverse (fact k) * \<bar>y\<bar> ^ k"
proof -
  have "(1::real) \<le> 2 ^ k" by simp
  moreover have "(1::real) \<le> real (2 * k + 1)" by simp
  ultimately have "(1::real) * 1 \<le> 2 ^ k * real (2 * k + 1)"
    by (rule mult_mono) simp_all
  then have "fact k * (1::real) \<le> fact k * (2 ^ k * real (2 * k + 1))"
    by (intro mult_left_mono) simp_all
  then have "(fact k :: real) \<le> 2 ^ k * fact k * real (2 * k + 1)"
    by (simp add: mult_ac)
  then have "\<bar>y\<bar> ^ k / (2 ^ k * fact k * real (2 * k + 1)) \<le> \<bar>y\<bar> ^ k / fact k"
    by (intro divide_left_mono) simp_all
  moreover have "\<bar>cdf_coeff k * y ^ k\<bar> = \<bar>y\<bar> ^ k / (2 ^ k * fact k * real (2 * k + 1))"
    by (simp add: cdf_coeff_def abs_mult power_abs)
  ultimately show ?thesis
    by (simp add: divide_inverse mult.commute)
qed

lemma summable_cdf_coeff: "summable (\<lambda>k. cdf_coeff k * y ^ k)"
proof (rule summable_comparison_test_ev)
  show "summable (\<lambda>k. inverse (fact k) * \<bar>y\<bar> ^ k)"
    by (rule summable_exp)
  show "\<forall>\<^sub>F k in sequentially. norm (cdf_coeff k * y ^ k) \<le> inverse (fact k) * \<bar>y\<bar> ^ k"
    using cdf_coeff_abs_le by (simp add: eventually_sequentially)
qed

lemma cdf_term_coeff: "cdf_term x k = x * (cdf_coeff k * (x\<^sup>2) ^ k)"
  by (simp add: cdf_term_def cdf_coeff_def power_mult)

lemma cdf_series_coeff: "(\<Sum>k. cdf_term x k) = x * (\<Sum>k. cdf_coeff k * (x\<^sup>2) ^ k)"
  unfolding cdf_term_coeff by (rule suminf_mult [OF summable_cdf_coeff])

lemma cdf_coeff_odd_multiple:
  "cdf_coeff k * y ^ k + 2 * real k * cdf_coeff k * y ^ k = (- (y / 2)) ^ k /\<^sub>R fact k"
proof -
  have lhs: "cdf_coeff k * y ^ k + 2 * real k * cdf_coeff k * y ^ k
      = real (2 * k + 1) * cdf_coeff k * y ^ k"
    by (simp add: algebra_simps)
  have coeff: "real (2 * k + 1) * cdf_coeff k = (- 1) ^ k / (2 ^ k * fact k)"
    by (simp add: cdf_coeff_def)
  have "(- (y / 2)) ^ k = (- 1) ^ k * (y ^ k / 2 ^ k)"
    by (simp only: power_minus [of "y / 2"] power_divide)
  then have rhs: "(- (y / 2)) ^ k /\<^sub>R fact k = (- 1) ^ k / (2 ^ k * fact k) * y ^ k"
    by (simp add: field_simps)
  show ?thesis
    by (simp only: lhs coeff rhs)
qed

lemma cdf_coeff_ode:
  "(\<Sum>k. cdf_coeff k * y ^ k) + 2 * y * (\<Sum>k. diffs cdf_coeff k * y ^ k) = exp (- (y / 2))"
proof -
  let ?h = "\<lambda>k. 2 * real k * cdf_coeff k * y ^ k"
  have d: "summable (\<lambda>k. diffs cdf_coeff k * y ^ k)"
    by (rule termdiff_converges_all) (rule summable_cdf_coeff)
  have shift: "?h (Suc k) = 2 * y * (diffs cdf_coeff k * y ^ k)" for k
    by (simp add: diffs_def)
  have "summable (\<lambda>k. ?h (Suc k))"
    unfolding shift by (rule summable_mult [OF d])
  then have h: "summable ?h"
    by (rule summable_Suc_iff [of ?h, THEN iffD1])
  have "2 * y * (\<Sum>k. diffs cdf_coeff k * y ^ k) = (\<Sum>k. ?h (Suc k))"
    unfolding shift by (rule suminf_mult [OF d, symmetric])
  also have "\<dots> = suminf ?h - ?h 0"
    by (rule suminf_split_head [OF h])
  finally have "2 * y * (\<Sum>k. diffs cdf_coeff k * y ^ k) = suminf ?h"
    by simp
  then have "(\<Sum>k. cdf_coeff k * y ^ k) + 2 * y * (\<Sum>k. diffs cdf_coeff k * y ^ k)
      = (\<Sum>k. cdf_coeff k * y ^ k) + suminf ?h"
    by simp
  also have "\<dots> = (\<Sum>k. cdf_coeff k * y ^ k + ?h k)"
    by (rule suminf_add [OF summable_cdf_coeff h])
  also have "\<dots> = (\<Sum>k. (- (y / 2)) ^ k /\<^sub>R fact k)"
    by (simp only: cdf_coeff_odd_multiple)
  also have "\<dots> = exp (- (y / 2))"
    by (simp add: exp_def)
  finally show ?thesis .
qed

lemma DERIV_cdf_series: "DERIV (\<lambda>x. \<Sum>k. cdf_term x k) x :> exp (- x\<^sup>2 / 2)"
proof -
  let ?g = "\<lambda>y. \<Sum>k. cdf_coeff k * y ^ k"
  let ?g' = "\<lambda>y. \<Sum>k. diffs cdf_coeff k * y ^ k"
  have g: "DERIV ?g y :> ?g' y" for y
    by (rule termdiffs_strong_converges_everywhere) (rule summable_cdf_coeff)
  have "DERIV (\<lambda>x. x * ?g (x\<^sup>2)) x :> 1 * ?g (x\<^sup>2) + (?g' (x\<^sup>2) * (2 * x)) * x"
    by (rule DERIV_mult) (auto intro!: derivative_eq_intros DERIV_chain' [OF _ g])
  moreover have "1 * ?g (x\<^sup>2) + (?g' (x\<^sup>2) * (2 * x)) * x = exp (- x\<^sup>2 / 2)"
    using cdf_coeff_ode [of "x\<^sup>2"] by (simp add: power2_eq_square mult_ac)
  ultimately show ?thesis
    by (simp only: cdf_series_coeff [abs_def])
qed

lemma DERIV_norm_cdf: "DERIV norm_cdf x :> norm_pdf x"
proof -
  have "DERIV (\<lambda>x. (\<Sum>k. cdf_term x k) / sqrt (2 * pi)) x :> exp (- x\<^sup>2 / 2) / sqrt (2 * pi)"
    by (rule DERIV_cdivide [OF DERIV_cdf_series])
  then have "DERIV (\<lambda>x. 1 / 2 + (\<Sum>k. cdf_term x k) / sqrt (2 * pi)) x
      :> 0 + exp (- x\<^sup>2 / 2) / sqrt (2 * pi)"
    by (intro DERIV_add DERIV_const)
  then show ?thesis
    by (simp add: norm_cdf_def [abs_def] norm_pdf_def)
qed

lemma norm_cdf_zero: "norm_cdf 0 = 1 / 2"
  by (simp add: norm_cdf_def cdf_term_def)

section \<open>The pricing formulas\<close>

lemma run_valid:
  assumes "valid_inputs self"
  shows "run self = Ok (spec_price (current_price self) (strike self) (time_to_maturity self)
                         (volatility self) (interest_rate self))"
proof -
  from assms have pos: "0 < current_price self" "0 < strike self"
      "0 < time_to_maturity self" "0 < volatility self"
    by (simp_all add: valid_inputs_def)
  then have "strike self \<noteq> 0" "\<not> current_price self / strike self \<le> 0"
      "\<not> time_to_maturity self < 0" "volatility self * sqrt (time_to_maturity self) \<noteq> 0"
    by (simp_all add: not_le)
  then show ?thesis
    by (simp add: run_def Let_def spec_price_def spec_d1_def spec_d2_def)
qed

text \<open>
  C8.  For all valid inputs the pricing operation returns, and its results satisfy
  \<open>put_delta = call_delta - 1\<close> exactly.
\<close>

theorem put_delta_is_call_delta_minus_one:
  "valid_inputs self \<Longrightarrow> \<exists>r. run self = Ok r \<and> put_delta r = call_delta r - 1"
  by (simp add: run_valid spec_price_def)

theorem put_delta_is_call_delta_minus_one_witness:
  "valid_inputs atm_option \<and> (\<exists>r. run atm_option = Ok r \<and> put_delta r = call_delta r - 1)"
  using put_delta_is_call_delta_minus_one [of atm_option]
  by (simp add: valid_inputs_def atm_option_def)

text \<open>
  C7.  Put-call parity: for all valid inputs the pricing operation returns, and over the
  reals \<open>call_price - put_price = spot - strike * exp (- rate * time_to_maturity)\<close>
  holds exactly.
\<close>

theorem put_call_parity:
  "valid_inputs self \<Longrightarrow>
     \<exists>r. run self = Ok r \<and>
         call_price r - put_price r =
           current_price self - strike self * exp (- interest_rate self * time_to_maturity self)"
  by (simp add: run_valid spec_price_def norm_cdf_minus algebra_simps)

theorem put_call_parity_witness:
  "valid_inputs atm_option \<and>
   (\<exists>r. run atm_option = Ok r \<and>
        call_price r - put_price r =
          current_price atm_option
            - strike atm_option * exp (- interest_rate atm_option * time_to_maturity atm_option))"
  using put_call_parity [of atm_option]
  by (simp add: valid_inputs_def atm_option_def)

section \<open>Reading, message boxes\<close>

lemma bind_Ok [simp]: "bind (Ok x) f = f x"
  and bind_Raise [simp]: "bind (Raise e) f = Raise e"
  and bind_NonFinite [simp]: "bind NonFinite f = NonFinite"
  by (simp_all add: bind_def)

lemma read_required_Some [simp]: "read_required (Some x) name = Ok x"
  by (simp add: read_required_def read_float_def as_float_def)

lemma read_optional_Some [simp]: "read_optional (Some x) name d = Ok x"
  and read_optional_None [simp]: "read_optional None name d = Ok d"
  by (simp_all add: read_optional_def read_float_def as_float_def)

lemma db_messagebox [simp]: "db (messagebox d w) = db w"
  and shown_messagebox [simp]: "shown (messagebox d w) = shown w"
  and figure_messagebox [simp]: "figure (messagebox d w) = figure w"
  and dialogs_messagebox [simp]: "dialogs (messagebox d w) = dialogs w @ [d]"
  by (simp_all add: messagebox_def)

section \<open>Validation before persistence (calculate\_option\_prices)\<close>




section \<open>Storage failures (insert\_input\_record, insert\_heatmap\_records)\<close>

text \<open>
  C3, as the code has it.  When the connector fails, \<open>DBHandler.execute\<close> raises its
  error unchanged, and both insert functions catch it: they show it in a
  \<open>Database Error\<close> box, write nothing, and return normally, \<open>insert_input_record\<close>
  with \<open>None\<close>.
\<close>

theorem storage_failure_is_caught:
  assumes "transport_error (db w) = Some m"
  shows "execute_insert_input (db w) params = Raise (MySQLError m) \<and>
         insert_input_record w params =
           (messagebox (ShowError ''Database Error'' (MySQLError m)) w, Ok None) \<and>
         execute_insert_heatmaps (db w) calc_id records = Raise (MySQLError m) \<and>
         insert_heatmap_records w calc_id records =
           (messagebox (ShowError ''Database Error'' (MySQLError m)) w, Ok ()) \<and>
         db (fst (insert_input_record w params)) = db w \<and>
         db (fst (insert_heatmap_records w calc_id records)) = db w"
  using assms
  by (simp add: insert_input_record_def insert_heatmap_records_def
      execute_insert_input_def execute_insert_heatmaps_def)

theorem storage_failure_is_caught_witness:
  "transport_error (db offline_world) = Some ''connection lost'' \<and>
   insert_input_record offline_world (100, 100, 1, 0.2, 0.05) =
     (messagebox (ShowError ''Database Error'' (MySQLError ''connection lost'')) offline_world,
      Ok None) \<and>
   insert_heatmap_records offline_world 1 [(80, 0.1, 20, 0)] =
     (messagebox (ShowError ''Database Error'' (MySQLError ''connection lost'')) offline_world,
      Ok ())"
  using storage_failure_is_caught [of offline_world "''connection lost''"
      "(100, 100, 1, 0.2, 0.05)" 1 "[(80, 0.1, 20, 0)]"]
  by (simp add: offline_world_def empty_world_def)

text \<open>
  C3 as stated fails: behind a failing connection \<open>insert_input_record\<close> does not raise
  and returns \<open>None\<close>, and \<open>insert_heatmap_records\<close> does not raise either.
\<close>

theorem storage_error_swallowed_counterexample:
  "transport_error (db offline_world) = Some ''connection lost'' \<and>
   \<not> is_Raise (snd (insert_input_record offline_world (100, 100, 1, 0.2, 0.05))) \<and>
   snd (insert_input_record offline_world (100, 100, 1, 0.2, 0.05)) = Ok None \<and>
   \<not> is_Raise (snd (insert_heatmap_records offline_world 1 [(80, 0.1, 20, 0)]))"
  by (simp add: offline_world_def empty_world_def insert_input_record_def
      insert_heatmap_records_def execute_insert_input_def execute_insert_heatmaps_def)

section \<open>Loading a calculation without samples (\_on\_history\_load)\<close>

text \<open>
  C4, as the code has it.  When the query returns no rows, \<open>_on_history_load\<close> raises
  nothing: it shows the \<open>No data\<close> information box and returns, no matrices are built
  and the figure stays as it was.
\<close>

theorem history_load_without_samples:
  assumes "execute_select_heatmap (db w) calc_id = Ok []"
  shows "history_load_try w (Some calc_id) = Ok (messagebox (ShowInfo ''No data'') w) \<and>
         on_history_load w (Some calc_id) = Ok (messagebox (ShowInfo ''No data'') w) \<and>
         figure (messagebox (ShowInfo ''No data'') w) = figure w"
  using assms by (simp add: history_load_try_def on_history_load_def)

theorem history_load_without_samples_witness:
  "execute_select_heatmap (db empty_world) 1 = Ok [] \<and>
   on_history_load empty_world (Some 1) = Ok (messagebox (ShowInfo ''No data'') empty_world)"
  using history_load_without_samples [of empty_world 1]
  by (simp add: empty_world_def execute_select_heatmap_def)

text \<open>
  C4 as stated fails: on a calculation without samples the body of \<open>_on_history_load\<close>
  raises no error.
\<close>

theorem empty_samples_no_error_counterexample:
  "execute_select_heatmap (db empty_world) 1 = Ok [] \<and>
   \<not> is_Raise (history_load_try empty_world (Some 1)) \<and>
   on_history_load empty_world (Some 1) = Ok (messagebox (ShowInfo ''No data'') empty_world)"
  by (simp add: empty_world_def execute_select_heatmap_def history_load_try_def
      on_history_load_def)

section \<open>Ranges of the heatmap (plot\_heatmaps)\<close>

lemma heatmap_surface_Ok_ranges:
  assumes "heatmap_surface n vars ranges = Ok (sr, vr, st)"
  shows "\<exists>a b c d K T r. heatmap_inputs n vars ranges = Ok (a, b, c, d, K, T, r) \<and>
           sr = linspace a b (nat n) \<and> vr = linspace c d (nat n)"
  using assms
  by (cases "heatmap_inputs n vars ranges")
     (auto simp add: heatmap_surface_def Let_def bind_def split: result.splits)

lemma heatmap_inputs_defaults:
  "heatmap_inputs n (fields_of self) no_ranges =
   heatmap_inputs n (fields_of self)
     \<lparr>spot_min_var = Some (0.8 * current_price self),
      spot_max_var = Some (1.2 * current_price self),
      vol_min_var = Some (max 0.01 (0.5 * volatility self)),
      vol_max_var = Some (min 5.0 (1.5 * volatility self))\<rparr>"
  by (simp add: heatmap_inputs_def fields_of_def no_ranges_def mult.commute)

text \<open>
  C9.  A request without explicit ranges behaves exactly as the request with the spot
  range \<open>[0.8 * spot, 1.2 * spot]\<close> and the volatility range
  \<open>[max 0.01 (0.5 * vol), min 5.0 (1.5 * vol)]\<close> written out, and when the sweep
  succeeds its axes are the linear spacings over these two ranges.
\<close>

theorem default_ranges:
  "heatmap_surface n (fields_of self) no_ranges =
     heatmap_surface n (fields_of self)
       \<lparr>spot_min_var = Some (0.8 * current_price self),
        spot_max_var = Some (1.2 * current_price self),
        vol_min_var = Some (max 0.01 (0.5 * volatility self)),
        vol_max_var = Some (min 5.0 (1.5 * volatility self))\<rparr> \<and>
   (\<forall>sr vr st. heatmap_surface n (fields_of self) no_ranges = Ok (sr, vr, st) \<longrightarrow>
      sr = linspace (0.8 * current_price self) (1.2 * current_price self) (nat n) \<and>
      vr = linspace (max 0.01 (0.5 * volatility self)) (min 5.0 (1.5 * volatility self)) (nat n))"
proof (intro conjI allI impI)
  show "heatmap_surface n (fields_of self) no_ranges =
     heatmap_surface n (fields_of self)
       \<lparr>spot_min_var = Some (0.8 * current_price self),
        spot_max_var = Some (1.2 * current_price self),
        vol_min_var = Some (max 0.01 (0.5 * volatility self)),
        vol_max_var = Some (min 5.0 (1.5 * volatility self))\<rparr>"
    by (simp add: heatmap_surface_def heatmap_inputs_defaults)
next
  fix sr vr st
  assume ok: "heatmap_surface n (fields_of self) no_ranges = Ok (sr, vr, st)"
  from heatmap_surface_Ok_ranges [OF ok] obtain a b c d K T r where
    inp: "heatmap_inputs n (fields_of self) no_ranges = Ok (a, b, c, d, K, T, r)"
    and axes: "sr = linspace a b (nat n)" "vr = linspace c d (nat n)"
    by blast
  from inp have "a = 0.8 * current_price self \<and> b = 1.2 * current_price self \<and>
      c = max 0.01 (0.5 * volatility self) \<and> d = min 5.0 (1.5 * volatility self)"
    by (simp add: heatmap_inputs_def fields_of_def no_ranges_def mult.commute
        split: if_splits)
  with axes show "sr = linspace (0.8 * current_price self) (1.2 * current_price self) (nat n)"
    and "vr = linspace (max 0.01 (0.5 * volatility self)) (min 5.0 (1.5 * volatility self)) (nat n)"
    by simp_all
qed

lemma heatmap_inputs_collapsed:
  assumes "valid_inputs self" and "10 \<le> volatility self"
    and "vol_min_var ranges = None" and "vol_max_var ranges = None"
  shows "\<exists>msg. heatmap_inputs n (fields_of self) ranges = Raise (ValueError msg) \<and>
           (2 \<le> n \<and> spot_range_ok self ranges \<longrightarrow> msg = ''Max Vol must be greater than Min Vol'')"
proof -
  from assms(2) have v: "max 0.01 (volatility self * 0.5) = volatility self * 0.5"
      "min 5.0 (volatility self * 1.5) = 5"
    by (simp_all add: max_def min_def)
  from assms(2) have le: "(5::real) \<le> volatility self * 0.5" by simp
  show ?thesis
    using assms(3,4) le
    by (cases "spot_min_var ranges"; cases "spot_max_var ranges")
       (auto simp add: heatmap_inputs_def fields_of_def spot_range_ok_def v Let_def)
qed

text \<open>
  C10.  For valid base inputs with volatility at least \<open>10\<close> and no volatility range
  given, the default range collapses (\<open>min 5.0 (1.5 * vol) = 5 \<le> max 0.01 (0.5 * vol)\<close>):
  the generation fails with a \<open>ValueError\<close>, shown in the \<open>Heatmap error\<close> box, and neither
  the database nor the figure changes.  When the resolution and the spot range are
  valid, the error is the inverted volatility range.
\<close>

theorem collapsed_default_vol_range:
  assumes "valid_inputs self" and "10 \<le> volatility self"
    and "vol_min_var ranges = None" and "vol_max_var ranges = None"
  shows "min 5.0 (volatility self * 1.5) = 5 \<and>
         5 \<le> max 0.01 (volatility self * 0.5) \<and>
         (\<exists>msg. heatmap_surface n (fields_of self) ranges = Raise (ValueError msg) \<and>
           plot_heatmaps w (Some calc_id) n (fields_of self) ranges =
             Ok (messagebox (ShowError ''Heatmap error'' (ValueError msg)) w) \<and>
           db (messagebox (ShowError ''Heatmap error'' (ValueError msg)) w) = db w \<and>
           figure (messagebox (ShowError ''Heatmap error'' (ValueError msg)) w) = figure w \<and>
           (2 \<le> n \<and> spot_range_ok self ranges \<longrightarrow>
              msg = ''Max Vol must be greater than Min Vol''))"
proof -
  from assms(2) have collapse: "min 5.0 (volatility self * 1.5) = 5"
      "5 \<le> max 0.01 (volatility self * 0.5)"
    by (simp_all add: min_def max_def)
  from heatmap_inputs_collapsed [OF assms, of n] obtain msg where
    "heatmap_inputs n (fields_of self) ranges = Raise (ValueError msg)"
    "2 \<le> n \<and> spot_range_ok self ranges \<longrightarrow> msg = ''Max Vol must be greater than Min Vol''"
    by blast
  then have "heatmap_surface n (fields_of self) ranges = Raise (ValueError msg) \<and>
      plot_heatmaps w (Some calc_id) n (fields_of self) ranges =
        Ok (messagebox (ShowError ''Heatmap error'' (ValueError msg)) w) \<and>
      db (messagebox (ShowError ''Heatmap error'' (ValueError msg)) w) = db w \<and>
      figure (messagebox (ShowError ''Heatmap error'' (ValueError msg)) w) = figure w \<and>
      (2 \<le> n \<and> spot_range_ok self ranges \<longrightarrow>
         msg = ''Max Vol must be greater than Min Vol'')"
    by (simp add: heatmap_surface_def plot_heatmaps_def)
  with collapse show ?thesis by blast
qed

theorem collapsed_default_vol_range_witness:
  "valid_inputs (atm_option\<lparr>volatility := 10\<rparr>) \<and>
   (10::real) \<le> volatility (atm_option\<lparr>volatility := 10\<rparr>) \<and>
   2 \<le> (12::int) \<and> spot_range_ok (atm_option\<lparr>volatility := 10\<rparr>) no_ranges \<and>
   plot_heatmaps empty_world (Some 1) 12 (fields_of (atm_option\<lparr>volatility := 10\<rparr>)) no_ranges =
     Ok (messagebox (ShowError ''Heatmap error''
           (ValueError ''Max Vol must be greater than Min Vol'')) empty_world)"
  using collapsed_default_vol_range [of "atm_option\<lparr>volatility := 10\<rparr>" no_ranges 12 empty_world 1]
  by (auto simp add: valid_inputs_def atm_option_def no_ranges_def spot_range_ok_def)

section \<open>The sweep of plot\_heatmaps\<close>

lemma length_linspace [simp]: "length (linspace a b n) = n"
  by (simp add: linspace_def)

lemma linspace_nth:
  assumes "2 \<le> n" and "i < n"
  shows "linspace a b n ! i = a + real i * (b - a) / real (n - 1)"
proof (cases "i = n - 1")
  case True
  with assms show ?thesis by (simp add: linspace_def)
next
  case False
  with assms show ?thesis by (simp add: linspace_def)
qed



lemma linspace_ge:
  assumes "2 \<le> n" and "a < b" and "x \<in> set (linspace a b n)"
  shows "a \<le> x"
proof -
  from assms(3) obtain i where i: "i < n" "x = linspace a b n ! i"
    by (auto simp add: in_set_conv_nth)
  from assms have "0 \<le> real i * (b - a) / real (n - 1)" by simp
  with assms i show ?thesis by (simp add: linspace_nth)
qed

lemma run_cell:
  assumes "0 < K" and "0 < T" and "0 < vol" and "0 < spot"
  shows "run \<lparr>time_to_maturity = T, strike = K, current_price = spot,
              volatility = vol, interest_rate = rate\<rparr> = Ok (spec_price spot K T vol rate)"
  using assms run_valid [of "\<lparr>time_to_maturity = T, strike = K, current_price = spot,
              volatility = vol, interest_rate = rate\<rparr>"]
  by (simp add: valid_inputs_def)

lemma set_cell_Ok:
  assumes "i < length a" and "j < length (a ! i)"
  shows "set_cell a i j v = Ok (a[i := (a ! i)[j := v]])"
  using assms by (simp add: set_cell_def)

lemma spot_loop_ok:
  assumes "0 < K" and "0 < T" and "0 < vol" and "\<forall>s \<in> set spots. 0 < s"
    and "i < length (call_prices st)" and "i < length (put_prices st)"
    and "j + length spots \<le> length (call_prices st ! i)"
    and "j + length spots \<le> length (put_prices st ! i)"
  shows "spot_loop T K rate i vol j spots st =
     Ok \<lparr>call_prices = (call_prices st)
            [i := take j (call_prices st ! i)
                  @ map (\<lambda>s. call_price (spec_price s K T vol rate)) spots
                  @ drop (j + length spots) (call_prices st ! i)],
         put_prices = (put_prices st)
            [i := take j (put_prices st ! i)
                  @ map (\<lambda>s. put_price (spec_price s K T vol rate)) spots
                  @ drop (j + length spots) (put_prices st ! i)],
         save_records = save_records st @ map (cell_sample K T rate vol) spots\<rparr>"
  using assms(4-)
proof (induction spots arbitrary: j st)
  case Nil
  then show ?case by simp
next
  case (Cons s spots)
  let ?c = "call_price (spec_price s K T vol rate)"
  let ?p = "put_price (spec_price s K T vol rate)"
  let ?cp = "(call_prices st)[i := (call_prices st ! i)[j := ?c]]"
  let ?pp = "(put_prices st)[i := (put_prices st ! i)[j := ?p]]"
  let ?st = "\<lparr>call_prices = ?cp, put_prices = ?pp,
              save_records = save_records st @ [(s, vol, ?cp ! i ! j, ?pp ! i ! j)]\<rparr>"
  from Cons.prems have s: "0 < s" and rest: "\<forall>s \<in> set spots. 0 < s" by simp_all
  from Cons.prems have j: "j < length (call_prices st ! i)" "j < length (put_prices st ! i)"
    by simp_all
  have step: "spot_loop T K rate i vol j (s # spots) st = spot_loop T K rate i vol (Suc j) spots ?st"
    using Cons.prems j by (simp add: run_cell assms(1-3) s set_cell_Ok)
  have IH: "spot_loop T K rate i vol (Suc j) spots ?st =
     Ok \<lparr>call_prices = (call_prices ?st)
            [i := take (Suc j) (call_prices ?st ! i)
                  @ map (\<lambda>s. call_price (spec_price s K T vol rate)) spots
                  @ drop (Suc j + length spots) (call_prices ?st ! i)],
         put_prices = (put_prices ?st)
            [i := take (Suc j) (put_prices ?st ! i)
                  @ map (\<lambda>s. put_price (spec_price s K T vol rate)) spots
                  @ drop (Suc j + length spots) (put_prices ?st ! i)],
         save_records = save_records ?st @ map (cell_sample K T rate vol) spots\<rparr>"
    using Cons.prems rest by (intro Cons.IH) simp_all
  have c: "take (Suc j) ((call_prices st ! i)[j := ?c]) = take j (call_prices st ! i) @ [?c]"
    using j by (simp add: take_Suc_conv_app_nth)
  have p: "take (Suc j) ((put_prices st ! i)[j := ?p]) = take j (put_prices st ! i) @ [?p]"
    using j by (simp add: take_Suc_conv_app_nth)
  show ?case
    unfolding step IH using Cons.prems j
    by (simp add: c p cell_sample_def)
qed


lemma vol_loop_ok:
  assumes "0 < K" and "0 < T" and "\<forall>s \<in> set spot_range. 0 < s" and "\<forall>v \<in> set vols. 0 < v"
    and "i + length vols \<le> length (call_prices st)"
    and "i + length vols \<le> length (put_prices st)"
    and "\<forall>k. i \<le> k \<and> k < i + length vols \<longrightarrow> length (call_prices st ! k) = length spot_range"
    and "\<forall>k. i \<le> k \<and> k < i + length vols \<longrightarrow> length (put_prices st ! k) = length spot_range"
  shows "vol_loop T K rate spot_range i vols st =
     Ok \<lparr>call_prices = take i (call_prices st)
            @ price_grid call_price K T rate spot_range vols
            @ drop (i + length vols) (call_prices st),
         put_prices = take i (put_prices st)
            @ price_grid put_price K T rate spot_range vols
            @ drop (i + length vols) (put_prices st),
         save_records = save_records st @ samples_of K T rate spot_range vols\<rparr>"
  using assms(4-)
proof (induction vols arbitrary: i st)
  case Nil
  then show ?case by (simp add: price_grid_def samples_of_def)
next
  case (Cons vol vols)
  let ?crow = "map (\<lambda>s. call_price (spec_price s K T vol rate)) spot_range"
  let ?prow = "map (\<lambda>s. put_price (spec_price s K T vol rate)) spot_range"
  let ?st = "\<lparr>call_prices = (call_prices st)[i := ?crow],
              put_prices = (put_prices st)[i := ?prow],
              save_records = save_records st @ map (cell_sample K T rate vol) spot_range\<rparr>"
  from Cons.prems have vol: "0 < vol" and rest: "\<forall>v \<in> set vols. 0 < v" by simp_all
  from Cons.prems have i: "i < length (call_prices st)" "i < length (put_prices st)"
    and len: "length (call_prices st ! i) = length spot_range"
      "length (put_prices st ! i) = length spot_range"
    by simp_all
  have inner: "spot_loop T K rate i vol 0 spot_range st = Ok ?st"
    using spot_loop_ok [OF assms(1,2) vol assms(3), of i st 0 rate] i len by simp
  have IH: "vol_loop T K rate spot_range (Suc i) vols ?st =
     Ok \<lparr>call_prices = take (Suc i) (call_prices ?st)
            @ price_grid call_price K T rate spot_range vols
            @ drop (Suc i + length vols) (call_prices ?st),
         put_prices = take (Suc i) (put_prices ?st)
            @ price_grid put_price K T rate spot_range vols
            @ drop (Suc i + length vols) (put_prices ?st),
         save_records = save_records ?st @ samples_of K T rate spot_range vols\<rparr>"
    using Cons.prems rest by (intro Cons.IH) simp_all
  have c: "take (Suc i) ((call_prices st)[i := ?crow]) = take i (call_prices st) @ [?crow]"
    using i by (simp add: take_Suc_conv_app_nth)
  have p: "take (Suc i) ((put_prices st)[i := ?prow]) = take i (put_prices st) @ [?prow]"
    using i by (simp add: take_Suc_conv_app_nth)
  show ?case
    using i by (simp add: inner IH c p price_grid_def samples_of_def)
qed

lemma heatmap_inputs_OkD:
  assumes "heatmap_inputs n vars ranges = Ok (a, b, c, d, K, T, r)"
  shows "2 \<le> n \<and> 0 < a \<and> a < b \<and> 0 < c \<and> c < d"
proof -
  from assms show ?thesis
    unfolding heatmap_inputs_def
    by (auto simp add: bind_def split: if_splits result.splits)
qed

lemma heatmap_surface_ok:
  assumes inp: "heatmap_inputs n vars ranges = Ok (a, b, c, d, K, T, r)"
    and "0 < K" and "0 < T"
  shows "heatmap_surface n vars ranges =
     Ok (linspace a b (nat n), linspace c d (nat n),
         \<lparr>call_prices = price_grid call_price K T r (linspace a b (nat n)) (linspace c d (nat n)),
          put_prices = price_grid put_price K T r (linspace a b (nat n)) (linspace c d (nat n)),
          save_records = samples_of K T r (linspace a b (nat n)) (linspace c d (nat n))\<rparr>)"
proof -
  from heatmap_inputs_OkD [OF inp] have n: "2 \<le> nat n" and ab: "0 < a" "a < b" and cd: "0 < c" "c < d"
    by auto
  have spots: "\<forall>s \<in> set (linspace a b (nat n)). 0 < s"
    using linspace_ge [OF n ab(2)] ab(1) by fastforce
  have vols: "\<forall>v \<in> set (linspace c d (nat n)). 0 < v"
    using linspace_ge [OF n cd(2)] cd(1) by fastforce
  have "vol_loop T K r (linspace a b (nat n)) 0 (linspace c d (nat n))
          \<lparr>call_prices = replicate (nat n) (replicate (nat n) 0),
           put_prices = replicate (nat n) (replicate (nat n) 0),
           save_records = []\<rparr> =
        Ok \<lparr>call_prices = price_grid call_price K T r (linspace a b (nat n)) (linspace c d (nat n)),
          put_prices = price_grid put_price K T r (linspace a b (nat n)) (linspace c d (nat n)),
          save_records = samples_of K T r (linspace a b (nat n)) (linspace c d (nat n))\<rparr>"
    using vol_loop_ok [OF assms(2,3) spots vols, of 0 _ r] by simp
  then show ?thesis
    by (simp add: heatmap_surface_def inp Let_def)
qed












section \<open>The reconstruction of \_on\_history\_load\<close>







section \<open>A concrete request\<close>

lemma atm_vars: "current_price_var (fields_of atm_option) = Some 100"
  "strike_var (fields_of atm_option) = Some 100"
  "ttm_var (fields_of atm_option) = Some 1"
  "vol_var (fields_of atm_option) = Some (2/10)"
  "rate_var (fields_of atm_option) = Some (5/100)"
  by (simp_all add: fields_of_def atm_option_def)

lemma nr: "spot_min_var no_ranges = None" "spot_max_var no_ranges = None"
  "vol_min_var no_ranges = None" "vol_max_var no_ranges = None"
  by (simp_all add: no_ranges_def)

lemma atm_heatmap_inputs:
  "heatmap_inputs 2 (fields_of atm_option) no_ranges = Ok (80, 120, 1 / 10, 3 / 10, 100, 1, 5 / 100)"
  unfolding heatmap_inputs_def atm_vars nr
  by (simp add: max_def min_def)

lemma heatmap_inputs_valid:
  assumes "2 \<le> n" and "0 < a" and "a < b" and "0 < c" and "c < d"
  shows "heatmap_inputs n (fields_of self)
           \<lparr>spot_min_var = Some a, spot_max_var = Some b,
            vol_min_var = Some c, vol_max_var = Some d\<rparr> =
         Ok (a, b, c, d, strike self, time_to_maturity self, interest_rate self)"
  using assms by (simp add: heatmap_inputs_def fields_of_def)

section \<open>Shape and content of the generated surface\<close>



section \<open>Round trip through the stored samples\<close>



text \<open>The default ranges as the axes of a sweep that succeeds.\<close>

theorem default_ranges_witness:
  "\<exists>st. heatmap_surface 2 (fields_of atm_option) no_ranges =
          Ok (linspace (0.8 * 100) (1.2 * 100) 2,
              linspace (max 0.01 (0.5 * 0.2)) (min 5.0 (1.5 * 0.2)) 2, st)"
proof -
  have pos: "(0::real) < 100" "(0::real) < 1" by simp_all
  from heatmap_surface_ok [OF atm_heatmap_inputs pos]
  obtain sr vr st where ok: "heatmap_surface 2 (fields_of atm_option) no_ranges = Ok (sr, vr, st)"
    by simp
  from default_ranges [of 2 atm_option] ok
  have "sr = linspace (0.8 * current_price atm_option) (1.2 * current_price atm_option) (nat 2)"
    "vr = linspace (max 0.01 (0.5 * volatility atm_option)) (min 5.0 (1.5 * volatility atm_option)) (nat 2)"
    by blast+
  then have "sr = linspace (0.8 * 100) (1.2 * 100) 2"
    "vr = linspace (max 0.01 (0.5 * 0.2)) (min 5.0 (1.5 * 0.2)) 2"
    by (simp_all add: atm_option_def)
  with ok show ?thesis by blast
qed

section \<open>Enclosures of pi, exp and the distribution function\<close>

lemma arctan_alt_bounds:
  assumes "0 \<le> x" and "x \<le> 1"
  shows "(\<Sum>k<2 * n. (- 1) ^ k * arctan_abs x k) \<le> arctan x"
    and "arctan x \<le> (\<Sum>k<2 * n + 1. (- 1) ^ k * arctan_abs x k)"
proof -
  from assms have ax: "\<bar>x\<bar> \<le> 1" by simp
  have zero: "arctan_abs x \<longlonglongrightarrow> 0"
    using zeroseq_arctan_series [OF ax] by (simp add: arctan_abs_def [abs_def])
  have nonneg: "0 \<le> arctan_abs x k" for k
    using assms(1) by (simp add: arctan_abs_def)
  have decr: "arctan_abs x (Suc k) \<le> arctan_abs x k" for k
    unfolding arctan_abs_def
  proof (rule mult_mono)
    show "1 / real (Suc k * 2 + 1) \<le> 1 / real (k * 2 + 1)"
      by (simp add: field_simps)
    show "x ^ (Suc k * 2 + 1) \<le> x ^ (k * 2 + 1)"
      using assms by (intro power_decreasing) simp_all
  qed (use assms in simp_all)
  have series: "arctan x = (\<Sum>k. (- 1) ^ k * arctan_abs x k)"
    using arctan_series [OF ax] by (simp add: arctan_abs_def)
  show "(\<Sum>k<2 * n. (- 1) ^ k * arctan_abs x k) \<le> arctan x"
    unfolding series by (rule summable_Leibniz'(2) [OF zero nonneg decr])
  show "arctan x \<le> (\<Sum>k<2 * n + 1. (- 1) ^ k * arctan_abs x k)"
    unfolding series by (rule summable_Leibniz'(4) [OF zero nonneg decr])
qed

lemma pi_bounds: "3141592 / 1000000 < pi" "pi < 3141593 / 1000000"
proof -
  have pi: "pi = 16 * arctan (1 / 5) - 4 * arctan (1 / 239)"
    using machin by simp
  have a5: "(\<Sum>k<2 * 3. (- 1) ^ k * arctan_abs (1 / 5) k) \<le> arctan (1 / 5)"
      "arctan (1 / 5) \<le> (\<Sum>k<2 * 2 + 1. (- 1) ^ k * arctan_abs (1 / 5) k)"
    by (rule arctan_alt_bounds; simp)+
  have a239: "(\<Sum>k<2 * 1. (- 1) ^ k * arctan_abs (1 / 239) k) \<le> arctan (1 / 239)"
      "arctan (1 / 239) \<le> (\<Sum>k<2 * 1 + 1. (- 1) ^ k * arctan_abs (1 / 239) k)"
    by (rule arctan_alt_bounds; simp)+
  have l5: "19739555 / 100000000 < (\<Sum>k<2 * 3. (- 1) ^ k * arctan_abs (1 / 5) k)"
    by (simp add: arctan_abs_def eval_nat_numeral)
  have u5: "(\<Sum>k<2 * 2 + 1. (- 1) ^ k * arctan_abs (1 / 5) k) < 19739557 / 100000000"
    by (simp add: arctan_abs_def eval_nat_numeral)
  have l239: "418407 / 100000000 < (\<Sum>k<2 * 1. (- 1) ^ k * arctan_abs (1 / 239) k)"
    by (simp add: arctan_abs_def eval_nat_numeral)
  have u239: "(\<Sum>k<2 * 1 + 1. (- 1) ^ k * arctan_abs (1 / 239) k) < 418408 / 100000000"
    by (simp add: arctan_abs_def eval_nat_numeral)
  from a5 a239 l5 u5 l239 u239 show "3141592 / 1000000 < pi" "pi < 3141593 / 1000000"
    unfolding pi by linarith+
qed

lemma exp_minus_alt_bounds:
  assumes "0 \<le> y" and "y \<le> 1"
  shows "(\<Sum>k<2 * n. (- 1) ^ k * exp_abs y k) \<le> exp (- y)"
    and "exp (- y) \<le> (\<Sum>k<2 * n + 1. (- 1) ^ k * exp_abs y k)"
proof -
  have "(\<lambda>k. inverse (fact k) * y ^ k) \<longlonglongrightarrow> 0"
    by (rule summable_LIMSEQ_zero [OF summable_exp])
  then have zero: "exp_abs y \<longlonglongrightarrow> 0"
    by (simp add: exp_abs_def [abs_def] divide_inverse mult.commute)
  have nonneg: "0 \<le> exp_abs y k" for k
    using assms(1) by (simp add: exp_abs_def)
  have decr: "exp_abs y (Suc k) \<le> exp_abs y k" for k
    unfolding exp_abs_def
  proof (rule frac_le)
    show "y ^ Suc k \<le> y ^ k" using assms by (intro power_decreasing) simp_all
    show "(fact k :: real) \<le> fact (Suc k)" by (rule fact_mono) simp
  qed (use assms in simp_all)
  have "exp (- y) = (\<Sum>k. (- y) ^ k /\<^sub>R fact k)"
    by (simp add: exp_def)
  also have "\<dots> = (\<Sum>k. (- 1) ^ k * exp_abs y k)"
    by (rule arg_cong [where f = suminf])
       (simp add: fun_eq_iff exp_abs_def power_minus [of y] divide_inverse mult_ac)
  finally have series: "exp (- y) = (\<Sum>k. (- 1) ^ k * exp_abs y k)" .
  show "(\<Sum>k<2 * n. (- 1) ^ k * exp_abs y k) \<le> exp (- y)"
    unfolding series by (rule summable_Leibniz'(2) [OF zero nonneg decr])
  show "exp (- y) \<le> (\<Sum>k<2 * n + 1. (- 1) ^ k * exp_abs y k)"
    unfolding series by (rule summable_Leibniz'(4) [OF zero nonneg decr])
qed

lemma cdf_term_alt: "cdf_term x k = (- 1) ^ k * cdf_abs x k"
  by (simp add: cdf_term_def cdf_abs_def)

lemma cdf_abs_nonneg: "0 \<le> x \<Longrightarrow> 0 \<le> cdf_abs x k"
  by (simp add: cdf_abs_def)

lemma cdf_abs_decreasing:
  assumes "0 \<le> x" and "x \<le> 1"
  shows "cdf_abs x (Suc k) \<le> cdf_abs x k"
  unfolding cdf_abs_def
proof (rule frac_le)
  show "0 \<le> x ^ (2 * k + 1)" using assms by simp
  show "x ^ (2 * Suc k + 1) \<le> x ^ (2 * k + 1)"
    using assms by (intro power_decreasing) simp_all
  show "0 < 2 ^ k * fact k * real (2 * k + 1)" by simp
  have "(2::real) ^ k \<le> 2 ^ Suc k" by simp
  moreover have "(fact k :: real) \<le> fact (Suc k)"
    by (rule fact_mono) simp
  moreover have "real (2 * k + 1) \<le> real (2 * Suc k + 1)" by simp
  ultimately show "2 ^ k * fact k * real (2 * k + 1) \<le> 2 ^ Suc k * fact (Suc k) * real (2 * Suc k + 1)"
    by (intro mult_mono) simp_all
qed

lemma cdf_abs_tendsto:
  assumes "0 \<le> x"
  shows "cdf_abs x \<longlonglongrightarrow> 0"
proof -
  have "cdf_term x \<longlonglongrightarrow> 0"
    by (rule summable_LIMSEQ_zero [OF summable_cdf_term])
  then have "(\<lambda>k. \<bar>cdf_term x k\<bar>) \<longlonglongrightarrow> 0"
    by (rule tendsto_rabs_zero)
  moreover have "\<bar>cdf_term x k\<bar> = cdf_abs x k" for k
    using cdf_abs_nonneg [OF assms, of k] by (simp add: cdf_term_alt abs_mult)
  ultimately show ?thesis by simp
qed

lemma cdf_series_bounds:
  assumes "0 \<le> x" and "x \<le> 1"
  shows "(\<Sum>k<2 * n. cdf_term x k) \<le> (\<Sum>k. cdf_term x k)"
    and "(\<Sum>k. cdf_term x k) \<le> (\<Sum>k<2 * n + 1. cdf_term x k)"
  using summable_Leibniz'(2) [OF cdf_abs_tendsto [OF assms(1)] cdf_abs_nonneg [OF assms(1)]
      cdf_abs_decreasing [OF assms], of n]
    summable_Leibniz'(4) [OF cdf_abs_tendsto [OF assms(1)] cdf_abs_nonneg [OF assms(1)]
      cdf_abs_decreasing [OF assms], of n]
  by (simp_all add: cdf_term_alt)

lemma s35: "34298355 / 100000000 \<le> (\<Sum>k. cdf_term (7 / 20) k)"
  "(\<Sum>k. cdf_term (7 / 20) k) \<le> 34298358 / 100000000"
proof -
  have lo: "34298355 / 100000000 \<le> (\<Sum>k<2 * 2. cdf_term (7 / 20) k)"
    by (simp add: cdf_term_def eval_nat_numeral)
  have hi: "(\<Sum>k<2 * 2 + 1. cdf_term (7 / 20) k) \<le> 34298358 / 100000000"
    by (simp add: cdf_term_def eval_nat_numeral)
  from lo cdf_series_bounds(1) [of "7 / 20" 2]
  show "34298355 / 100000000 \<le> (\<Sum>k. cdf_term (7 / 20) k)" by simp
  from hi cdf_series_bounds(2) [of "7 / 20" 2]
  show "(\<Sum>k. cdf_term (7 / 20) k) \<le> 34298358 / 100000000" by simp
qed

lemma s15: "14943939 / 100000000 \<le> (\<Sum>k. cdf_term (3 / 20) k)"
  "(\<Sum>k. cdf_term (3 / 20) k) \<le> 14943940 / 100000000"
proof -
  have lo: "14943939 / 100000000 \<le> (\<Sum>k<2 * 2. cdf_term (3 / 20) k)"
    by (simp add: cdf_term_def eval_nat_numeral)
  have hi: "(\<Sum>k<2 * 2 + 1. cdf_term (3 / 20) k) \<le> 14943940 / 100000000"
    by (simp add: cdf_term_def eval_nat_numeral)
  from lo cdf_series_bounds(1) [of "3 / 20" 2]
  show "14943939 / 100000000 \<le> (\<Sum>k. cdf_term (3 / 20) k)" by simp
  from hi cdf_series_bounds(2) [of "3 / 20" 2]
  show "(\<Sum>k. cdf_term (3 / 20) k) \<le> 14943940 / 100000000" by simp
qed

lemma sqrt_2pi_bounds: "2506628 / 1000000 \<le> sqrt (2 * pi)" "sqrt (2 * pi) \<le> 25066285 / 10000000"
proof -
  have "(2506628 / 1000000)\<^sup>2 \<le> 2 * pi"
    using pi_bounds(1) by (simp add: power2_eq_square)
  then show "2506628 / 1000000 \<le> sqrt (2 * pi)"
    by (rule real_le_rsqrt)
  have "2 * pi \<le> (25066285 / 10000000)\<^sup>2"
    using pi_bounds(2) by (simp add: power2_eq_square)
  then show "sqrt (2 * pi) \<le> 25066285 / 10000000"
    by (rule real_le_lsqrt [rotated]) simp
qed

lemma norm_cdf_bounds:
  assumes "sl \<le> (\<Sum>k. cdf_term x k)" and "(\<Sum>k. cdf_term x k) \<le> su" and "0 \<le> sl"
  shows "1 / 2 + sl / (25066285 / 10000000) \<le> norm_cdf x"
    and "norm_cdf x \<le> 1 / 2 + su / (2506628 / 1000000)"
proof -
  have "sl / (25066285 / 10000000) \<le> (\<Sum>k. cdf_term x k) / sqrt (2 * pi)"
    using assms sqrt_2pi_bounds by (intro frac_le) simp_all
  then show "1 / 2 + sl / (25066285 / 10000000) \<le> norm_cdf x"
    by (simp add: norm_cdf_def)
  have "(\<Sum>k. cdf_term x k) / sqrt (2 * pi) \<le> su / (2506628 / 1000000)"
    using assms sqrt_2pi_bounds by (intro frac_le) simp_all
  then show "norm_cdf x \<le> 1 / 2 + su / (2506628 / 1000000)"
    by (simp add: norm_cdf_def)
qed

lemma norm_cdf_35: "63683062 / 100000000 \<le> norm_cdf (7 / 20)" "norm_cdf (7 / 20) \<le> 63683067 / 100000000"
  using norm_cdf_bounds [OF s35] by simp_all

lemma norm_cdf_15: "55961768 / 100000000 \<le> norm_cdf (3 / 20)" "norm_cdf (3 / 20) \<le> 55961771 / 100000000"
  using norm_cdf_bounds [OF s15] by simp_all

lemma exp_20: "95122942 / 100000000 \<le> exp (- (1 / 20) :: real)" "exp (- (1 / 20) :: real) \<le> 95122943 / 100000000"
proof -
  have "95122942 / 100000000 \<le> (\<Sum>k<2 * 3. (- 1) ^ k * exp_abs (1 / 20) k)"
    by (simp add: exp_abs_def eval_nat_numeral)
  with exp_minus_alt_bounds(1) [of "1 / 20" 3]
  show "95122942 / 100000000 \<le> exp (- (1 / 20) :: real)" by simp
  have "(\<Sum>k<2 * 2 + 1. (- 1) ^ k * exp_abs (1 / 20) k) \<le> 95122943 / 100000000"
    by (simp add: exp_abs_def eval_nat_numeral)
  with exp_minus_alt_bounds(2) [of "1 / 20" 2]
  show "exp (- (1 / 20) :: real) \<le> 95122943 / 100000000" by simp
qed

lemma exp_800: "94058748 / 100000000 \<le> exp (- (49 / 800) :: real)" "exp (- (49 / 800) :: real) \<le> 94062579 / 100000000"
proof -
  have "94058748 / 100000000 \<le> (\<Sum>k<2 * 2. (- 1) ^ k * exp_abs (49 / 800) k)"
    by (simp add: exp_abs_def eval_nat_numeral)
  with exp_minus_alt_bounds(1) [of "49 / 800" 2]
  show "94058748 / 100000000 \<le> exp (- (49 / 800) :: real)" by simp
  have "(\<Sum>k<2 * 1 + 1. (- 1) ^ k * exp_abs (49 / 800) k) \<le> 94062579 / 100000000"
    by (simp add: exp_abs_def eval_nat_numeral)
  with exp_minus_alt_bounds(2) [of "49 / 800" 1]
  show "exp (- (49 / 800) :: real) \<le> 94062579 / 100000000" by simp
qed

lemma atm_d1: "spec_d1 100 100 1 (1 / 5) (1 / 20) = 7 / 20"
  by (simp add: spec_d1_def power2_eq_square)

lemma atm_d2: "spec_d2 100 100 1 (1 / 5) (1 / 20) = 3 / 20"
  by (simp add: spec_d2_def atm_d1)

lemma atm_run: "run atm_option = Ok (spec_price 100 100 1 (1 / 5) (1 / 20))"
  using run_valid [of atm_option] by (simp add: valid_inputs_def atm_option_def)

lemma atm_discounted:
  "95122942 / 100000000 * (55961768 / 100000000) \<le> exp (- (1 / 20)) * norm_cdf (3 / 20)"
  "exp (- (1 / 20)) * norm_cdf (3 / 20) \<le> 95122943 / 100000000 * (55961771 / 100000000)"
  using exp_20 norm_cdf_15 by (intro mult_mono; simp)+

lemma atm_call:
  "call_price (spec_price 100 100 1 (1 / 5) (1 / 20)) =
     100 * norm_cdf (7 / 20) - 100 * (exp (- (1 / 20)) * norm_cdf (3 / 20))"
  by (simp add: spec_price_def atm_d1 atm_d2)

lemma atm_put:
  "put_price (spec_price 100 100 1 (1 / 5) (1 / 20)) =
     100 * exp (- (1 / 20)) - 100 * (exp (- (1 / 20)) * norm_cdf (3 / 20))
       - 100 * (1 - norm_cdf (7 / 20))"
  by (simp add: spec_price_def atm_d1 atm_d2 norm_cdf_minus algebra_simps)

lemma atm_delta: "call_delta (spec_price 100 100 1 (1 / 5) (1 / 20)) = norm_cdf (7 / 20)"
  by (simp add: spec_price_def atm_d1)

lemma atm_gamma:
  "call_gamma (spec_price 100 100 1 (1 / 5) (1 / 20)) =
     exp (- (49 / 800)) / sqrt (2 * pi) / 20"
  by (simp add: spec_price_def atm_d1 norm_pdf_def power2_eq_square)

lemma atm_gamma_bounds:
  "94058748 / 100000000 / (25066285 / 10000000) / 20 \<le> exp (- (49 / 800)) / sqrt (2 * pi) / 20"
  "exp (- (49 / 800)) / sqrt (2 * pi) / 20 \<le> 94062579 / 100000000 / (2506628 / 1000000) / 20"
proof -
  have "94058748 / 100000000 / (25066285 / 10000000) \<le> exp (- (49 / 800)) / sqrt (2 * pi)"
    using exp_800 sqrt_2pi_bounds by (intro frac_le) simp_all
  then show "94058748 / 100000000 / (25066285 / 10000000) / 20 \<le> exp (- (49 / 800)) / sqrt (2 * pi) / 20"
    by (rule divide_right_mono) simp
  have "exp (- (49 / 800)) / sqrt (2 * pi) \<le> 94062579 / 100000000 / (2506628 / 1000000)"
    using exp_800 sqrt_2pi_bounds by (intro frac_le) simp_all
  then show "exp (- (49 / 800)) / sqrt (2 * pi) / 20 \<le> 94062579 / 100000000 / (2506628 / 1000000) / 20"
    by (rule divide_right_mono) simp
qed

lemma atm_reference_values:
  "\<bar>call_price (spec_price 100 100 1 (1 / 5) (1 / 20)) - 10.4506\<bar> < 5 / 10 ^ 5"
  "\<bar>put_price (spec_price 100 100 1 (1 / 5) (1 / 20)) - 5.5735\<bar> < 5 / 10 ^ 5"
  "\<bar>call_delta (spec_price 100 100 1 (1 / 5) (1 / 20)) - 0.6368\<bar> < 5 / 10 ^ 5"
  "\<bar>call_gamma (spec_price 100 100 1 (1 / 5) (1 / 20)) - 0.0188\<bar> < 5 / 10 ^ 5"
proof -
  show "\<bar>call_price (spec_price 100 100 1 (1 / 5) (1 / 20)) - 10.4506\<bar> < 5 / 10 ^ 5"
    unfolding atm_call using norm_cdf_35 atm_discounted by simp
  show "\<bar>put_price (spec_price 100 100 1 (1 / 5) (1 / 20)) - 5.5735\<bar> < 5 / 10 ^ 5"
    unfolding atm_put using norm_cdf_35 atm_discounted exp_20 by simp
  show "\<bar>call_delta (spec_price 100 100 1 (1 / 5) (1 / 20)) - 0.6368\<bar> < 5 / 10 ^ 5"
    unfolding atm_delta using norm_cdf_35 by simp
  show "\<bar>call_gamma (spec_price 100 100 1 (1 / 5) (1 / 20)) - 0.0188\<bar> < 5 / 10 ^ 5"
    unfolding atm_gamma using atm_gamma_bounds by simp
qed

section \<open>The formulas and the reference scenario\<close>

text \<open>
  C1.  For every input that satisfies the invariants, \<open>BlackScholes.run\<close> returns the
  values of the Black-Scholes-Merton equations of the specification (\<open>d1\<close>, \<open>d2\<close>, call
  and put price, call delta, gamma).  For spot 100, strike 100, maturity 1, volatility
  0.2 and rate 0.05 it returns values that agree with 10.4506, 5.5735, 0.6368 and 0.0188
  to four decimal places (over the reals, with the exact distribution function).
\<close>

theorem pricing_formulas_and_reference_values:
  "(valid_inputs self \<longrightarrow>
      run self = Ok (spec_price (current_price self) (strike self) (time_to_maturity self)
                       (volatility self) (interest_rate self))) \<and>
   (\<exists>r. run atm_option = Ok r \<and>
      \<bar>call_price r - 10.4506\<bar> < 5 / 10 ^ 5 \<and>
      \<bar>put_price r - 5.5735\<bar> < 5 / 10 ^ 5 \<and>
      \<bar>call_delta r - 0.6368\<bar> < 5 / 10 ^ 5 \<and>
      \<bar>call_gamma r - 0.0188\<bar> < 5 / 10 ^ 5)"
  using run_valid [of self] atm_run atm_reference_values by blast

theorem pricing_formulas_and_reference_values_witness:
  "valid_inputs atm_option \<and>
   run atm_option = Ok (spec_price (current_price atm_option) (strike atm_option)
                          (time_to_maturity atm_option) (volatility atm_option)
                          (interest_rate atm_option))"
  using pricing_formulas_and_reference_values [of atm_option]
  by (simp add: valid_inputs_def atm_option_def)

end
